theory Spec2Isabelle
  imports Main
begin

section \<open>Constants, assets and collaborators\<close>

text \<open>
  The row is the React function component of
  \<^verbatim>\<open>src/pages/workspace/WorkspacesListRow.tsx\<close>. The constants object CONST is
  imported by the component and is not part of the sources at hand. The enumerants the
  component compares its props against with \<^verbatim>\<open>===\<close> are parameters of the
  model: a record of string literals, of which nothing is assumed but what a theorem
  states.
\<close>

record Constants =
  POLICY_TYPE_FREE :: string
  POLICY_TYPE_CORPORATE :: string
  POLICY_TYPE_TEAM :: string
  LAYOUT_WIDTH_WIDE :: string
  LAYOUT_WIDTH_NARROW :: string
  LAYOUT_WIDTH_NONE :: string
  BRICK_ROAD_INDICATOR_STATUS_ERROR :: string

text \<open>
  Constants, assets, theme colours and style sheets that the component only passes on to
  its children are tokens named after the source expression that denotes them.
\<close>

datatype avatar_size = AVATAR_SIZE_DEFAULT | AVATAR_SIZE_SMALL

datatype icon_type = ICON_TYPE_WORKSPACE

datatype anchor_origin = ANCHOR_ORIGIN_HORIZONTAL_RIGHT | ANCHOR_ORIGIN_VERTICAL_TOP

datatype IconAsset = HandCard | ShieldYellow | Mailbox | DotIndicator

datatype theme_colour = danger | iconSuccessFill

datatype dimension = workspaceTypeIconWidth

datatype style_name =
    flexRow | flexColumn | gap5 | highlightBG | br3 | pv5 | pl5 | flex1 | flex0
  | gap3 | gap2 | mb3 | mr2 | mr5 | alignItemsCenter | alignSelfCenter | flexGrow1
  | textStrong | labelStrong | textMicro | textSupporting
  | workspaceOwnerAvatarWrapper | workspaceTypeWrapper

text \<open>
  A style prop is one style sheet, a nested array, or a falsy entry
  (\<^verbatim>\<open>cond && styles.x\<close> with a false condition; an optional prop left out).
\<close>

datatype StyleProp =
    Style style_name
  | StyleFalse
  | StyleUndefined
  | StyleArray "StyleProp list"

definition and_style :: "bool \<Rightarrow> StyleProp \<Rightarrow> StyleProp" where
  \<comment> \<open>\<^verbatim>\<open>cond && style\<close>\<close>
  "and_style cond s = (if cond then s else StyleFalse)"

type_synonym AvatarSource = string

type_synonym PopoverMenuItem = string

text \<open>
  Modelled from the spec: the personal-details record type is declared outside the
  sources at hand; the spec's OwnerIdentity names its fields (identifier, display name,
  login handle, avatar source).
\<close>

record PersonalDetails =
  accountID :: int
  displayName :: string
  login :: string
  avatar :: AvatarSource

text \<open>
  The collaborators the component calls: the translation lookup of
  \<^verbatim>\<open>useLocalize\<close> and the two functions of \<^verbatim>\<open>PersonalDetailsUtils\<close>.
  They are parameters of the model.
\<close>

record Collaborators =
  translate :: "string \<Rightarrow> string"
  getPersonalDetailsByIDs :: "int list \<Rightarrow> int \<Rightarrow> PersonalDetails list"
  getDisplayNameOrDefault :: "PersonalDetails \<Rightarrow> string"

section \<open>Numbers\<close>

text \<open>
  A JavaScript number is an IEEE-754 double: not-a-number, an infinity with its sign, or a
  finite value with a sign, a mantissa m and an exponent e that stands for m times 2 to
  the power e. The values the host delivers are in the format's normal form: the exponent
  lies between -1074 and 971 and the mantissa has 53 bits, or the exponent is -1074 and
  the mantissa has fewer (the subnormal numbers and the two zeros).
\<close>

datatype js_number = NaN | Infinity bool | Finite bool int int

function bit_length :: "int \<Rightarrow> nat" where
  "bit_length n = (if n \<le> 0 then 0 else Suc (bit_length (n div 2)))"
  by pat_completeness auto
termination
  by (relation "measure nat") auto

declare bit_length.simps [simp del]

text \<open>
  The double nearest to the magnitude m times 2 to the power e, with the given sign: ties
  go to the even mantissa, a magnitude beyond the largest double gives the infinity, and
  one below the smallest subnormal gives the zero.
\<close>

definition round_to_double :: "bool \<Rightarrow> int \<Rightarrow> int \<Rightarrow> js_number" where
  "round_to_double negative m e =
     (let e' = max (e + int (bit_length m) - 53) (- 1074) in
      if m = 0 then Finite negative 0 (- 1074)
      else if e' \<le> e then
        (if 971 < e' then Infinity negative else Finite negative (m * 2 ^ nat (e - e')) e')
      else
        (let d = nat (e' - e);
             q = m div 2 ^ d;
             r = m mod 2 ^ d;
             q' = (if 2 ^ (d - 1) < r \<or> (r = 2 ^ (d - 1) \<and> odd q) then q + 1 else q);
             m'' = (if q' = 2 ^ 53 then 2 ^ 52 else q');
             e'' = (if q' = 2 ^ 53 then e' + 1 else e')
         in if 971 < e'' then Infinity negative else Finite negative m'' e''))"

text \<open>
  The operator \<^verbatim>\<open>+\<close> on two numbers: the exact sum, rounded to the nearest
  double. An exact sum of zero is the positive zero unless both operands are the negative
  zero.
\<close>

fun js_add :: "js_number \<Rightarrow> js_number \<Rightarrow> js_number" where
  "js_add NaN b = NaN"
| "js_add a NaN = NaN"
| "js_add (Infinity s) (Infinity t) = (if s = t then Infinity s else NaN)"
| "js_add (Infinity s) (Finite t m e) = Infinity s"
| "js_add (Finite s m e) (Infinity t) = Infinity t"
| "js_add (Finite s1 m1 e1) (Finite s2 m2 e2) =
     (let e = min e1 e2;
          a = (if s1 then - 1 else 1) * m1 * 2 ^ nat (e1 - e);
          b = (if s2 then - 1 else 1) * m2 * 2 ^ nat (e2 - e);
          total = a + b
      in if total = 0 then Finite (s1 \<and> s2) 0 (- 1074)
         else round_to_double (total < 0) \<bar>total\<bar> e)"

text \<open>The number an integer literal denotes.\<close>

definition js_int :: "int \<Rightarrow> js_number" where
  "js_int i = round_to_double (i < 0) \<bar>i\<bar> 0"

instantiation js_number :: "{zero, plus}"
begin

definition zero_js_number :: js_number where
  "zero_js_number = Finite False 0 (- 1074)"

definition plus_js_number :: "js_number \<Rightarrow> js_number \<Rightarrow> js_number" where
  "plus_js_number = js_add"

instance ..

end

section \<open>The element tree\<close>

record AnchorPosition =
  horizontal :: js_number
  vertical :: js_number

text \<open>
  The one event handler the component creates, the arrow function passed as
  \<^verbatim>\<open>onIconPress\<close>, and the one ref it creates.
\<close>

datatype handler = measureContainerInWindow

datatype ref_object = threeDotsMenuContainerRef

record AvatarProps =
  avatar_imageStyles :: "StyleProp option"
  avatar_size :: avatar_size
  avatar_source :: "AvatarSource option"
  avatar_fallbackIcon :: "AvatarSource option"
  avatar_name :: "string option"
  avatar_type :: "icon_type option"
  avatar_containerStyles :: "StyleProp option"

record IconProps =
  icon_src :: IconAsset
  icon_fill :: "theme_colour option"
  icon_width :: "dimension option"
  icon_height :: "dimension option"
  icon_additionalStyles :: "StyleProp option"

record ThreeDotsMenuProps =
  menu_onIconPress :: "handler option"
  menu_menuItems :: "PopoverMenuItem list"
  menu_anchorPosition :: AnchorPosition
  menu_anchorAlignment :: "(anchor_origin \<times> anchor_origin) option"
  menu_iconStyles :: "StyleProp option"
  menu_shouldOverlay :: "bool option"

text \<open>
  What a render returns: a tree of elements. A child expression \<^verbatim>\<open>cond && <X/>\<close>
  contributes no child when the condition is falsy, and a fragment contributes its
  children in place, so the children of a view are a list. A view carries its style and
  the ref attached to it, a text its \<^verbatim>\<open>numberOfLines\<close>, its style and its string.
\<close>

datatype element =
    View_el StyleProp "ref_object option" "element list"
  | Avatar_el AvatarProps
  | Text_el nat StyleProp string
  | Icon_el IconProps
  | BrickRoadIndicatorIcon_el "string option"
  | ThreeDotsMenu_el ThreeDotsMenuProps

section \<open>The component\<close>

record WorkspacesListRowProps =
  title :: string
  ownerAccountID :: "int option"
  workspaceType :: string
  workspaceIcon :: "AvatarSource option"
  fallbackWorkspaceIcon :: "AvatarSource option"
  menuItems :: "PopoverMenuItem list"
  layoutWidth :: "string option"
  rowStyles :: StyleProp
  brickRoadIndicator :: "string option"
  currentUserPersonalDetails :: PersonalDetails

definition workspaceTypeIcon :: "Constants \<Rightarrow> string \<Rightarrow> IconAsset" where
  "workspaceTypeIcon c wt =
     (if wt = POLICY_TYPE_FREE c then HandCard
      else if wt = POLICY_TYPE_CORPORATE c then ShieldYellow
      else if wt = POLICY_TYPE_TEAM c then Mailbox
      else Mailbox)"

definition userFriendlyWorkspaceType :: "Constants \<Rightarrow> (string \<Rightarrow> string) \<Rightarrow> string \<Rightarrow> string" where
  \<comment> \<open>the function memoised by \<^verbatim>\<open>useMemo\<close> on \<^verbatim>\<open>[workspaceType, translate]\<close>\<close>
  "userFriendlyWorkspaceType c tr wt =
     (if wt = POLICY_TYPE_FREE c then tr ''workspace.type.free''
      else if wt = POLICY_TYPE_CORPORATE c then tr ''workspace.type.control''
      else if wt = POLICY_TYPE_TEAM c then tr ''workspace.type.collect''
      else tr ''workspace.type.free'')"

text \<open>
  Line 95: \<^verbatim>\<open>ownerAccountID && getPersonalDetailsByIDs([ownerAccountID], viewer)[0]\<close>.
  The value is the left operand when that is falsy (left out, or the number 0), and
  otherwise the first entry of the looked-up array, which is undefined when the array is
  empty. The second component lists the calls made to the directory lookup, each with
  its two arguments.
\<close>

datatype ownerDetails_value =
    owner_undefined
  | owner_zero
  | owner_object PersonalDetails

type_synonym directory_call = "int list \<times> int"

definition ownerDetails ::
  "Collaborators \<Rightarrow> WorkspacesListRowProps \<Rightarrow> ownerDetails_value \<times> directory_call list" where
  "ownerDetails env p =
     (case ownerAccountID p of
        None \<Rightarrow> (owner_undefined, [])
      | Some n \<Rightarrow>
          if n = 0 then (owner_zero, [])
          else
            (let viewer = accountID (currentUserPersonalDetails p) in
             (case getPersonalDetailsByIDs env [n] viewer of
                [] \<Rightarrow> owner_undefined
              | d # _ \<Rightarrow> owner_object d,
              [([n], viewer)])))"

fun truthy_owner :: "ownerDetails_value \<Rightarrow> bool" where
  \<comment> \<open>\<^verbatim>\<open>!!ownerDetails\<close>\<close>
  "truthy_owner owner_undefined = False"
| "truthy_owner owner_zero = False"
| "truthy_owner (owner_object d) = True"

fun truthy_string :: "string option \<Rightarrow> bool" where
  \<comment> \<open>truthiness of an optional string prop: undefined and the empty string are falsy\<close>
  "truthy_string None = False"
| "truthy_string (Some s) = (s \<noteq> [])"

definition BrickRoadIndicatorIcon :: "Constants \<Rightarrow> string option \<Rightarrow> element option" where
  \<comment> \<open>lines 67 to 76; the result is None where the component returns null\<close>
  "BrickRoadIndicatorIcon c bri =
     (if truthy_string bri then
        Some (Icon_el \<lparr>icon_src = DotIndicator,
                       icon_fill = Some (if bri = Some (BRICK_ROAD_INDICATOR_STATUS_ERROR c)
                                         then danger else iconSuccessFill),
                       icon_width = None, icon_height = None, icon_additionalStyles = None\<rparr>)
      else None)"

text \<open>
  The props of the two three-dots menus: the one of the narrow layout (lines 139 to 142),
  with the literal anchor and no press handler, and the one of the wide layout (lines 200
  to 214), with the press handler and the anchor read from the state.
\<close>

definition narrowThreeDotsMenu :: "WorkspacesListRowProps \<Rightarrow> ThreeDotsMenuProps" where
  "narrowThreeDotsMenu p =
     \<lparr>menu_onIconPress = None,
      menu_menuItems = menuItems p,
      menu_anchorPosition = \<lparr>horizontal = 0, vertical = 0\<rparr>,
      menu_anchorAlignment = None,
      menu_iconStyles = None,
      menu_shouldOverlay = None\<rparr>"

definition wideThreeDotsMenu :: "WorkspacesListRowProps \<Rightarrow> AnchorPosition \<Rightarrow> ThreeDotsMenuProps" where
  "wideThreeDotsMenu p threeDotsMenuPosition =
     \<lparr>menu_onIconPress = Some measureContainerInWindow,
      menu_menuItems = menuItems p,
      menu_anchorPosition = threeDotsMenuPosition,
      menu_anchorAlignment = Some (ANCHOR_ORIGIN_HORIZONTAL_RIGHT, ANCHOR_ORIGIN_VERTICAL_TOP),
      menu_iconStyles = Some (StyleArray [Style mr2]),
      menu_shouldOverlay = Some True\<rparr>"

text \<open>
  The sections of the row, in the order of the JSX. The identity section (lines 121 to
  145) holds the workspace avatar and title, and in the narrow layout the indicator and
  the three-dots menu.
\<close>

definition identitySection :: "WorkspacesListRowProps \<Rightarrow> bool \<Rightarrow> bool \<Rightarrow> element" where
  "identitySection p isWide isNarrow =
     View_el
       (StyleArray [Style flexRow, and_style isWide (Style flex1), Style gap3,
                    and_style isNarrow (StyleArray [Style mb3, Style mr2]), Style alignItemsCenter])
       None
       ([Avatar_el \<lparr>avatar_imageStyles = Some (StyleArray [Style alignSelfCenter]),
                    avatar_size = AVATAR_SIZE_DEFAULT,
                    avatar_source = workspaceIcon p,
                    avatar_fallbackIcon = fallbackWorkspaceIcon p,
                    avatar_name = Some (title p),
                    avatar_type = Some ICON_TYPE_WORKSPACE,
                    avatar_containerStyles = None\<rparr>,
         Text_el 1 (StyleArray [Style flex1, Style flexGrow1, Style textStrong]) (title p)]
        @ (if isNarrow then
             [BrickRoadIndicatorIcon_el (brickRoadIndicator p),
              ThreeDotsMenu_el (narrowThreeDotsMenu p)]
           else []))"

text \<open>
  The owner section (lines 146 to 170): the view, and inside it, under
  \<^verbatim>\<open>!!ownerDetails\<close>, the avatar, display name and login of the owner.
\<close>

definition ownerSection :: "Collaborators \<Rightarrow> ownerDetails_value \<Rightarrow> bool \<Rightarrow> bool \<Rightarrow> element" where
  "ownerSection env od isWide isNarrow =
     View_el
       (StyleArray [Style flexRow, and_style isWide (Style flex1), Style gap2,
                    and_style isNarrow (Style mr5), Style alignItemsCenter])
       None
       (if truthy_owner od then
          (case od of
             owner_object d \<Rightarrow>
               [Avatar_el \<lparr>avatar_imageStyles = None,
                           avatar_size = AVATAR_SIZE_SMALL,
                           avatar_source = Some (avatar d),
                           avatar_fallbackIcon = None,
                           avatar_name = None,
                           avatar_type = None,
                           avatar_containerStyles = Some (Style workspaceOwnerAvatarWrapper)\<rparr>,
                View_el (Style flex1) None
                  [Text_el 1 (StyleArray [Style labelStrong]) (getDisplayNameOrDefault env d),
                   Text_el 1 (StyleArray [Style textMicro, Style textSupporting]) (login d)]]
           | _ \<Rightarrow> [])
        else [])"

text \<open>The type section (lines 171 to 192): the icon of the workspace type, its label and the caption.\<close>

definition typeSection ::
  "Constants \<Rightarrow> Collaborators \<Rightarrow> WorkspacesListRowProps \<Rightarrow> bool \<Rightarrow> bool \<Rightarrow> element" where
  "typeSection c env p isWide isNarrow =
     View_el
       (StyleArray [Style flexRow, and_style isWide (Style flex1), Style gap2,
                    and_style isNarrow (Style mr5), Style alignItemsCenter])
       None
       [Icon_el \<lparr>icon_src = workspaceTypeIcon c (workspaceType p),
                 icon_fill = None,
                 icon_width = Some workspaceTypeIconWidth,
                 icon_height = Some workspaceTypeIconWidth,
                 icon_additionalStyles = Some (Style workspaceTypeWrapper)\<rparr>,
        View_el (Style flex1) None
          [Text_el 1 (StyleArray [Style labelStrong])
             (userFriendlyWorkspaceType c (translate env) (workspaceType p)),
           Text_el 1 (StyleArray [Style textMicro, Style textSupporting])
             (translate env ''workspace.common.plan'')]]"

text \<open>
  The two sections of the wide layout (lines 194 to 217): the indicator in a view of its
  own, and the view that carries the ref and holds the three-dots menu.
\<close>

definition indicatorSection :: "WorkspacesListRowProps \<Rightarrow> bool \<Rightarrow> element" where
  "indicatorSection p isNarrow =
     View_el
       (StyleArray [Style flexRow, Style flex0, Style gap2, and_style isNarrow (Style mr5),
                    Style alignItemsCenter])
       None
       [BrickRoadIndicatorIcon_el (brickRoadIndicator p)]"

definition actionsSection :: "WorkspacesListRowProps \<Rightarrow> AnchorPosition \<Rightarrow> element" where
  "actionsSection p threeDotsMenuPosition =
     View_el StyleUndefined (Some threeDotsMenuContainerRef)
       [ThreeDotsMenu_el (wideThreeDotsMenu p threeDotsMenuPosition)]"

text \<open>
  The render function (lines 78 to 220), given the current value of the state
  \<^verbatim>\<open>threeDotsMenuPosition\<close>. The rendered tree is None where the component returns
  null. The prop \<^verbatim>\<open>layoutWidth\<close> defaults to NONE. The owner lookup of line 95 runs
  before the early return of line 113.
\<close>

record render_result =
  rendered :: "element option"
  directoryCalls :: "directory_call list"

definition WorkspacesListRow ::
  "Constants \<Rightarrow> Collaborators \<Rightarrow> WorkspacesListRowProps \<Rightarrow> AnchorPosition \<Rightarrow> render_result" where
  "WorkspacesListRow c env p threeDotsMenuPosition =
     (let lw = (case layoutWidth p of None \<Rightarrow> LAYOUT_WIDTH_NONE c | Some w \<Rightarrow> w);
          od = ownerDetails env p
      in if lw = LAYOUT_WIDTH_NONE c then \<lparr>rendered = None, directoryCalls = snd od\<rparr>
         else
           (let isWide = (lw = LAYOUT_WIDTH_WIDE c);
                isNarrow = (lw = LAYOUT_WIDTH_NARROW c)
            in \<lparr>rendered = Some
                  (View_el
                     (StyleArray [if isWide then Style flexRow else Style flexColumn,
                                  and_style isWide (Style gap5), Style highlightBG, Style br3,
                                  Style pv5, Style pl5, rowStyles p])
                     None
                     ([identitySection p isWide isNarrow,
                       ownerSection env (fst od) isWide isNarrow,
                       typeSection c env p isWide isNarrow]
                      @ (if isWide then
                           [indicatorSection p isNarrow, actionsSection p threeDotsMenuPosition]
                         else []))),
                directoryCalls = snd od\<rparr>))"

section \<open>The mounted row and its events\<close>

text \<open>
  A mounted row holds the props of its last render, the state of line 92 and the number
  of callbacks handed to \<^verbatim>\<open>measureInWindow\<close> that the host has not invoked yet.
\<close>

record row_instance =
  current_props :: WorkspacesListRowProps
  threeDotsMenuPosition :: AnchorPosition
  measureRequests :: nat

definition mount :: "WorkspacesListRowProps \<Rightarrow> row_instance" where
  \<comment> \<open>line 92: \<^verbatim>\<open>useState({horizontal: 0, vertical: 0})\<close>\<close>
  "mount p = \<lparr>current_props = p,
              threeDotsMenuPosition = \<lparr>horizontal = 0, vertical = 0\<rparr>,
              measureRequests = 0\<rparr>"

definition committed :: "Constants \<Rightarrow> Collaborators \<Rightarrow> row_instance \<Rightarrow> element option" where
  "committed c env s = rendered (WorkspacesListRow c env (current_props s) (threeDotsMenuPosition s))"

fun children :: "element \<Rightarrow> element list" where
  "children (View_el st r kids) = kids"
| "children e = []"

fun menus :: "element \<Rightarrow> ThreeDotsMenuProps list" where
  "menus (View_el st r kids) = concat (map menus kids)"
| "menus (ThreeDotsMenu_el m) = [m]"
| "menus e = []"

fun attached_refs :: "element \<Rightarrow> ref_object list" where
  "attached_refs (View_el st r kids) =
     (case r of None \<Rightarrow> [] | Some x \<Rightarrow> [x]) @ concat (map attached_refs kids)"
| "attached_refs e = []"

definition ref_current :: "Constants \<Rightarrow> Collaborators \<Rightarrow> row_instance \<Rightarrow> bool" where
  \<comment> \<open>whether \<^verbatim>\<open>threeDotsMenuContainerRef.current\<close> is a mounted view\<close>
  "ref_current c env s =
     (case committed c env s of
        None \<Rightarrow> False
      | Some tree \<Rightarrow> threeDotsMenuContainerRef \<in> set (attached_refs tree))"

definition setThreeDotsMenuPosition :: "AnchorPosition \<Rightarrow> row_instance \<Rightarrow> row_instance" where
  "setThreeDotsMenuPosition pos s = s\<lparr>threeDotsMenuPosition := pos\<rparr>"

definition measureInWindow_callback ::
  "js_number \<Rightarrow> js_number \<Rightarrow> js_number \<Rightarrow> js_number \<Rightarrow> row_instance \<Rightarrow> row_instance" where
  \<comment> \<open>lines 202 to 207, the arrow function given to \<^verbatim>\<open>measureInWindow\<close>\<close>
  "measureInWindow_callback x y width height s =
     setThreeDotsMenuPosition \<lparr>horizontal = x + width, vertical = y + height\<rparr> s"

fun run_handler :: "Constants \<Rightarrow> Collaborators \<Rightarrow> handler \<Rightarrow> row_instance \<Rightarrow> row_instance" where
  \<comment> \<open>lines 201 to 208: \<^verbatim>\<open>ref.current?.measureInWindow(callback)\<close>\<close>
  "run_handler c env measureContainerInWindow s =
     (if ref_current c env s then s\<lparr>measureRequests := Suc (measureRequests s)\<rparr> else s)"

text \<open>
  Modelled from the spec: the component ThreeDotsMenu and the host's measurement service
  are outside the sources at hand. Activating the menu-opening control runs the handler
  the row passed as \<^verbatim>\<open>onIconPress\<close>, if it passed one; the host answers a
  measurement request by invoking its callback once with the rectangle of the element,
  or never. A parent render supplies fresh props; the state persists across renders.
\<close>

datatype event =
    ParentRender WorkspacesListRowProps
  | IconPress
  | MeasureDone js_number js_number js_number js_number

fun step :: "Constants \<Rightarrow> Collaborators \<Rightarrow> row_instance \<Rightarrow> event \<Rightarrow> row_instance" where
  "step c env s (ParentRender p) = s\<lparr>current_props := p\<rparr>"
| "step c env s IconPress =
     (case committed c env s of
        None \<Rightarrow> s
      | Some tree \<Rightarrow>
          (case menus tree of
             [] \<Rightarrow> s
           | m # ms \<Rightarrow>
               (case menu_onIconPress m of
                  None \<Rightarrow> s
                | Some h \<Rightarrow> run_handler c env h s)))"
| "step c env s (MeasureDone x y width height) =
     (if measureRequests s = 0 then s
      else measureInWindow_callback x y width height
             (s\<lparr>measureRequests := measureRequests s - 1\<rparr>))"

definition run :: "Constants \<Rightarrow> Collaborators \<Rightarrow> row_instance \<Rightarrow> event list \<Rightarrow> row_instance" where
  "run c env s es = foldl (step c env) s es"

fun is_measurement :: "event \<Rightarrow> bool" where
  "is_measurement (MeasureDone x y width height) = True"
| "is_measurement e = False"



text \<open>
  The controls of a section: the status indicator and the three-dots menu among the
  children of its view.
\<close>

fun is_control :: "element \<Rightarrow> bool" where
  "is_control (BrickRoadIndicatorIcon_el b) = True"
| "is_control (ThreeDotsMenu_el m) = True"
| "is_control e = False"

definition controls :: "element \<Rightarrow> element list" where
  "controls e = filter is_control (children e)"

section \<open>A scenario\<close>

text \<open>
  The scenario of the spec's testable properties: the workspace Acme of type CORPORATE,
  owned by account 42, which the directory resolves to Jane Doe, in the wide layout. The
  constants are instantiated with one string literal each, the translation lookup with
  the identity on keys.
\<close>

definition CONST_literals :: Constants where
  "CONST_literals =
     \<lparr>POLICY_TYPE_FREE = ''free'', POLICY_TYPE_CORPORATE = ''corporate'',
      POLICY_TYPE_TEAM = ''team'', LAYOUT_WIDTH_WIDE = ''wide'',
      LAYOUT_WIDTH_NARROW = ''narrow'', LAYOUT_WIDTH_NONE = ''none'',
      BRICK_ROAD_INDICATOR_STATUS_ERROR = ''error''\<rparr>"

definition jane_doe :: PersonalDetails where
  "jane_doe = \<lparr>accountID = 42, displayName = ''Jane Doe'', login = ''jane@x.com'',
               avatar = ''jane.png''\<rparr>"

definition viewer_details :: PersonalDetails where
  "viewer_details = \<lparr>accountID = 7, displayName = ''Viewer'', login = ''viewer@x.com'',
                     avatar = ''viewer.png''\<rparr>"

definition scenario_env :: Collaborators where
  "scenario_env =
     \<lparr>translate = (\<lambda>key. key),
      getPersonalDetailsByIDs = (\<lambda>ids viewer. filter (\<lambda>d. accountID d \<in> set ids) [jane_doe]),
      getDisplayNameOrDefault = displayName\<rparr>"

definition acme :: WorkspacesListRowProps where
  "acme = \<lparr>title = ''Acme'', ownerAccountID = Some 42, workspaceType = ''corporate'',
            workspaceIcon = None, fallbackWorkspaceIcon = None, menuItems = [''Delete''],
            layoutWidth = Some ''wide'', rowStyles = StyleUndefined,
            brickRoadIndicator = Some ''error'',
            currentUserPersonalDetails = viewer_details\<rparr>"

definition origin :: AnchorPosition where
  "origin = \<lparr>horizontal = 0, vertical = 0\<rparr>"

section \<open>Facts about the rendered tree and the events\<close>

text \<open>
  Sums of doubles: at the literals of the scenario; where the rounding shows (0.1 + 0.2, a
  unit added to 2 to the power 53, twice 1e308); and at the zeros, the subnormal numbers,
  the infinities and the largest double.
\<close>

lemma js_sums:
  "js_int 10 + js_int 30 = js_int 40"
  "js_int 20 + js_int 40 = js_int 60"
  by code_simp+

lemma js_add_rounds:
  "Finite False 7205759403792794 (- 56) + Finite False 7205759403792794 (- 55)
     = Finite False 5404319552844596 (- 54)"
  "js_int 9007199254740992 + js_int 1 = js_int 9007199254740992"
  "Finite False 5010420900022432 971 + Finite False 5010420900022432 971 = Infinity False"
  by code_simp+

lemma js_add_special_values:
  "Finite True 0 (- 1074) + Finite True 0 (- 1074)
     = Finite True 0 (- 1074)"
  "Finite True 0 (- 1074) + Finite False 0 (- 1074)
     = Finite False 0 (- 1074)"
  "Finite False 4503599627370496 (- 52) + Finite True 4503599627370496 (- 52)
     = Finite False 0 (- 1074)"
  "Finite False 1 (- 1074) + Finite False 1 (- 1074)
     = Finite False 2 (- 1074)"
  "Finite False 4503599627370496 (- 1074) + Finite True 1 (- 1074)
     = Finite False 4503599627370495 (- 1074)"
  "Infinity False + Infinity True
     = NaN"
  "Infinity True + Finite False 4503599627370496 (- 52)
     = Infinity True"
  "Finite False 9007199254740991 971 + Finite False 4503599627370496 917
     = Finite False 9007199254740991 971"
  "Finite False 9007199254740991 971 + Finite False 4503599627370496 918
     = Infinity False"
  "Finite False 5910974510923776 (- 49) + Finite True 4503599627370496 (- 54)
     = Finite False 5770237022568448 (- 49)"
  "Finite False 4503599627370497 1 + Finite False 4503599627370496 (- 52)
     = Finite False 4503599627370498 1"
  by code_simp+

lemma js_int_values:
  "js_int 0 = 0"
  "js_int 40 = Finite False 5629499534213120 (- 47)"
  "js_int 60 = Finite False 8444249301319680 (- 47)"
  by code_simp+


text \<open>The menus and the refs of each section, and the tree of each layout.\<close>

lemma menus_identitySection:
  "menus (identitySection p isWide isNarrow) = (if isNarrow then [narrowThreeDotsMenu p] else [])"
  by (simp add: identitySection_def)

lemma menus_ownerSection: "menus (ownerSection env od isWide isNarrow) = []"
  by (cases od) (simp_all add: ownerSection_def)

lemma menus_typeSection: "menus (typeSection c env p isWide isNarrow) = []"
  by (simp add: typeSection_def)

lemma menus_indicatorSection: "menus (indicatorSection p isNarrow) = []"
  by (simp add: indicatorSection_def)

lemma menus_actionsSection: "menus (actionsSection p pos) = [wideThreeDotsMenu p pos]"
  by (simp add: actionsSection_def)


lemma onIconPress_wide: "menu_onIconPress (wideThreeDotsMenu p pos) = Some measureContainerInWindow"
  by (simp add: wideThreeDotsMenu_def)

lemmas menus_sections = menus_identitySection menus_ownerSection menus_typeSection
  menus_indicatorSection menus_actionsSection

lemma refs_identitySection: "attached_refs (identitySection p isWide isNarrow) = []"
  by (cases isNarrow) (simp_all add: identitySection_def)

lemma refs_ownerSection: "attached_refs (ownerSection env od isWide isNarrow) = []"
  by (cases od) (simp_all add: ownerSection_def)

lemma refs_typeSection: "attached_refs (typeSection c env p isWide isNarrow) = []"
  by (simp add: typeSection_def)

lemma refs_indicatorSection: "attached_refs (indicatorSection p isNarrow) = []"
  by (simp add: indicatorSection_def)

lemma refs_actionsSection: "attached_refs (actionsSection p pos) = [threeDotsMenuContainerRef]"
  by (simp add: actionsSection_def)

lemmas refs_sections = refs_identitySection refs_ownerSection refs_typeSection
  refs_indicatorSection refs_actionsSection

lemma controls_identitySection:
  "controls (identitySection p isWide isNarrow) =
     (if isNarrow then
        [BrickRoadIndicatorIcon_el (brickRoadIndicator p), ThreeDotsMenu_el (narrowThreeDotsMenu p)]
      else [])"
  by (simp add: controls_def identitySection_def)

lemma controls_ownerSection: "controls (ownerSection env od isWide isNarrow) = []"
  by (cases od) (simp_all add: controls_def ownerSection_def)

lemma controls_typeSection: "controls (typeSection c env p isWide isNarrow) = []"
  by (simp add: controls_def typeSection_def)

lemma controls_indicatorSection:
  "controls (indicatorSection p isNarrow) = [BrickRoadIndicatorIcon_el (brickRoadIndicator p)]"
  by (simp add: controls_def indicatorSection_def)

lemma controls_actionsSection:
  "controls (actionsSection p pos) = [ThreeDotsMenu_el (wideThreeDotsMenu p pos)]"
  by (simp add: controls_def actionsSection_def)

lemmas controls_sections = controls_identitySection controls_ownerSection controls_typeSection
  controls_indicatorSection controls_actionsSection

lemma rendered_wide:
  assumes "LAYOUT_WIDTH_WIDE c \<noteq> LAYOUT_WIDTH_NONE c"
    and "layoutWidth p = Some (LAYOUT_WIDTH_WIDE c)"
  shows "rendered (WorkspacesListRow c env p pos) =
     Some (View_el
             (StyleArray [Style flexRow, Style gap5, Style highlightBG, Style br3, Style pv5,
                          Style pl5, rowStyles p])
             None
             [identitySection p True (LAYOUT_WIDTH_WIDE c = LAYOUT_WIDTH_NARROW c),
              ownerSection env (fst (ownerDetails env p)) True (LAYOUT_WIDTH_WIDE c = LAYOUT_WIDTH_NARROW c),
              typeSection c env p True (LAYOUT_WIDTH_WIDE c = LAYOUT_WIDTH_NARROW c),
              indicatorSection p (LAYOUT_WIDTH_WIDE c = LAYOUT_WIDTH_NARROW c),
              actionsSection p pos])"
  using assms by (simp add: WorkspacesListRow_def Let_def and_style_def)

lemma rendered_narrow:
  assumes "LAYOUT_WIDTH_NARROW c \<noteq> LAYOUT_WIDTH_NONE c"
    and "LAYOUT_WIDTH_NARROW c \<noteq> LAYOUT_WIDTH_WIDE c"
    and "layoutWidth p = Some (LAYOUT_WIDTH_NARROW c)"
  shows "rendered (WorkspacesListRow c env p pos) =
     Some (View_el
             (StyleArray [Style flexColumn, StyleFalse, Style highlightBG, Style br3, Style pv5,
                          Style pl5, rowStyles p])
             None
             [identitySection p False True,
              ownerSection env (fst (ownerDetails env p)) False True,
              typeSection c env p False True])"
  using assms by (simp add: WorkspacesListRow_def Let_def and_style_def)

lemma wide_press:
  assumes "LAYOUT_WIDTH_WIDE c \<noteq> LAYOUT_WIDTH_NONE c"
    and "LAYOUT_WIDTH_WIDE c \<noteq> LAYOUT_WIDTH_NARROW c"
    and "layoutWidth (current_props s) = Some (LAYOUT_WIDTH_WIDE c)"
  shows "step c env s IconPress = s\<lparr>measureRequests := Suc (measureRequests s)\<rparr>"
  using assms
  by (simp add: committed_def ref_current_def rendered_wide menus_sections refs_sections
      onIconPress_wide)


lemma step_keeps_anchor:
  "\<not> is_measurement e \<Longrightarrow> threeDotsMenuPosition (step c env s e) = threeDotsMenuPosition s"
proof (cases e)
  case (ParentRender p)
  then show ?thesis by simp
next
  case IconPress
  have h: "threeDotsMenuPosition (run_handler c env h s) = threeDotsMenuPosition s" for h
    by (cases h) simp
  show ?thesis
    by (simp add: IconPress h split: option.split list.split)
next
  case (MeasureDone x y w h)
  assume "\<not> is_measurement e"
  with MeasureDone show ?thesis by simp
qed

lemma run_keeps_anchor:
  "\<forall>e\<in>set es. \<not> is_measurement e \<Longrightarrow>
   threeDotsMenuPosition (run c env s es) = threeDotsMenuPosition s"
  unfolding run_def
  by (induction es arbitrary: s) (simp_all add: step_keeps_anchor)

lemma press_cases:
  "step c env s IconPress = s \<or> step c env s IconPress = s\<lparr>measureRequests := Suc (measureRequests s)\<rparr>"
proof -
  have h: "run_handler c env h s = s \<or> run_handler c env h s = s\<lparr>measureRequests := Suc (measureRequests s)\<rparr>" for h
    by (cases h) simp
  show ?thesis
    using h by (simp split: option.split list.split)
qed

lemma press_keeps_anchor:
  "threeDotsMenuPosition (step c env s IconPress) = threeDotsMenuPosition s"
  by (rule step_keeps_anchor) simp

lemma measure_done_anchor:
  "0 < measureRequests s \<Longrightarrow>
   threeDotsMenuPosition (step c env s (MeasureDone x y width height)) =
     \<lparr>horizontal = x + width, vertical = y + height\<rparr>"
  by (simp add: measureInWindow_callback_def setThreeDotsMenuPosition_def)

lemma measure_done_idle:
  "measureRequests s = 0 \<Longrightarrow> step c env s (MeasureDone x y width height) = s"
  by simp

lemma trigger_and_measure_wide:
  assumes "distinct [LAYOUT_WIDTH_WIDE c, LAYOUT_WIDTH_NARROW c, LAYOUT_WIDTH_NONE c]"
    and "layoutWidth (current_props s) = Some (LAYOUT_WIDTH_WIDE c)"
  shows "run c env s [IconPress, MeasureDone x y width height] =
           s\<lparr>threeDotsMenuPosition := \<lparr>horizontal = x + width, vertical = y + height\<rparr>\<rparr>"
proof -
  have "step c env s IconPress = s\<lparr>measureRequests := Suc (measureRequests s)\<rparr>"
    using assms by (intro wide_press) simp_all
  then show ?thesis
    by (simp add: run_def measureInWindow_callback_def setThreeDotsMenuPosition_def)
qed

lemma trigger_twice_same_anchor:
  "threeDotsMenuPosition (run c env s [IconPress, MeasureDone x y w h, IconPress, MeasureDone x y w h])
   = threeDotsMenuPosition (run c env s [IconPress, MeasureDone x y w h])"
proof -
  define s1 where "s1 = step c env s IconPress"
  define s2 where "s2 = step c env s1 (MeasureDone x y w h)"
  define s3 where "s3 = step c env s2 IconPress"
  have r: "run c env s [IconPress, MeasureDone x y w h, IconPress, MeasureDone x y w h]
             = step c env s3 (MeasureDone x y w h)"
    "run c env s [IconPress, MeasureDone x y w h] = s2"
    by (simp_all add: run_def s1_def s2_def s3_def)
  have p3: "threeDotsMenuPosition s3 = threeDotsMenuPosition s2"
    unfolding s3_def by (rule press_keeps_anchor)
  show ?thesis
  proof (cases "measureRequests s1 = 0")
    case True
    then have "s2 = s1" unfolding s2_def by simp
    from True have "step c env s IconPress = s"
      using press_cases [of c env s] unfolding s1_def by auto
    then have "s1 = s" by (simp add: s1_def)
    then have "s2 = s" "s3 = s" using \<open>s2 = s1\<close> \<open>step c env s IconPress = s\<close> by (simp_all add: s3_def)
    moreover have "measureRequests s = 0" using True \<open>s1 = s\<close> by simp
    ultimately show ?thesis unfolding r by simp
  next
    case False
    then have a2: "threeDotsMenuPosition s2 = \<lparr>horizontal = x + w, vertical = y + h\<rparr>"
      unfolding s2_def by (intro measure_done_anchor) simp
    show ?thesis
    proof (cases "measureRequests s3 = 0")
      case True
      then show ?thesis unfolding r by (simp add: p3)
    next
      case False
      then have "threeDotsMenuPosition (step c env s3 (MeasureDone x y w h))
                   = \<lparr>horizontal = x + w, vertical = y + h\<rparr>"
        by (intro measure_done_anchor) simp
      then show ?thesis unfolding r by (simp add: a2)
    qed
  qed
qed





section \<open>Workspace type: icon and label\<close>

text \<open>
  C4: FREE gives the hand-card asset and the translation of the key ending in free,
  CORPORATE the shield asset and control, TEAM the mailbox asset and collect, and the
  three icon and label pairs differ from one another. The three enumerants are different
  values.
\<close>

theorem type_icon_and_label_of_enumerants:
  assumes "distinct [POLICY_TYPE_FREE c, POLICY_TYPE_CORPORATE c, POLICY_TYPE_TEAM c]"
  shows "workspaceTypeIcon c (POLICY_TYPE_FREE c) = HandCard
       \<and> userFriendlyWorkspaceType c tr (POLICY_TYPE_FREE c) = tr ''workspace.type.free''
       \<and> workspaceTypeIcon c (POLICY_TYPE_CORPORATE c) = ShieldYellow
       \<and> userFriendlyWorkspaceType c tr (POLICY_TYPE_CORPORATE c) = tr ''workspace.type.control''
       \<and> workspaceTypeIcon c (POLICY_TYPE_TEAM c) = Mailbox
       \<and> userFriendlyWorkspaceType c tr (POLICY_TYPE_TEAM c) = tr ''workspace.type.collect''
       \<and> distinct (map (\<lambda>wt. (workspaceTypeIcon c wt, userFriendlyWorkspaceType c tr wt))
           [POLICY_TYPE_FREE c, POLICY_TYPE_CORPORATE c, POLICY_TYPE_TEAM c])"
  using assms by (auto simp: workspaceTypeIcon_def userFriendlyWorkspaceType_def)

theorem type_icon_and_label_of_enumerants_witness:
  "distinct [POLICY_TYPE_FREE CONST_literals, POLICY_TYPE_CORPORATE CONST_literals,
             POLICY_TYPE_TEAM CONST_literals]
   \<and> workspaceTypeIcon CONST_literals ''free'' = HandCard
   \<and> userFriendlyWorkspaceType CONST_literals (translate scenario_env) ''free''
       = ''workspace.type.free''
   \<and> workspaceTypeIcon CONST_literals ''corporate'' = ShieldYellow
   \<and> userFriendlyWorkspaceType CONST_literals (translate scenario_env) ''corporate''
       = ''workspace.type.control''
   \<and> workspaceTypeIcon CONST_literals ''team'' = Mailbox
   \<and> userFriendlyWorkspaceType CONST_literals (translate scenario_env) ''team''
       = ''workspace.type.collect''"
  using type_icon_and_label_of_enumerants
    [where c = CONST_literals and tr = "translate scenario_env"]
  by (simp add: CONST_literals_def scenario_env_def)

text \<open>
  C2: a workspace type that is none of the three enumerants gets the mailbox asset, the
  icon of TEAM, and the translation of the key ending in free, the label of FREE; the
  type section of the row shows exactly this pair.
\<close>

theorem unknown_type_falls_back_asymmetrically:
  assumes "wt \<notin> {POLICY_TYPE_FREE c, POLICY_TYPE_CORPORATE c, POLICY_TYPE_TEAM c}"
  shows "workspaceTypeIcon c wt = Mailbox
       \<and> userFriendlyWorkspaceType c tr wt = tr ''workspace.type.free''
       \<and> (workspaceType p = wt \<longrightarrow>
            children (typeSection c env p isWide isNarrow) =
              [Icon_el \<lparr>icon_src = Mailbox, icon_fill = None,
                        icon_width = Some workspaceTypeIconWidth,
                        icon_height = Some workspaceTypeIconWidth,
                        icon_additionalStyles = Some (Style workspaceTypeWrapper)\<rparr>,
               View_el (Style flex1) None
                 [Text_el 1 (StyleArray [Style labelStrong])
                    (translate env ''workspace.type.free''),
                  Text_el 1 (StyleArray [Style textMicro, Style textSupporting])
                    (translate env ''workspace.common.plan'')]])"
  using assms by (simp add: workspaceTypeIcon_def userFriendlyWorkspaceType_def typeSection_def)

theorem unknown_type_falls_back_asymmetrically_witness:
  "''personal'' \<notin> {POLICY_TYPE_FREE CONST_literals, POLICY_TYPE_CORPORATE CONST_literals,
                     POLICY_TYPE_TEAM CONST_literals}
   \<and> workspaceTypeIcon CONST_literals ''personal'' = Mailbox
   \<and> userFriendlyWorkspaceType CONST_literals (translate scenario_env) ''personal''
       = ''workspace.type.free''
   \<and> workspaceType (acme\<lparr>workspaceType := ''personal''\<rparr>) = ''personal''
   \<and> children (typeSection CONST_literals scenario_env
                 (acme\<lparr>workspaceType := ''personal''\<rparr>) True False) =
       [Icon_el \<lparr>icon_src = Mailbox, icon_fill = None,
                 icon_width = Some workspaceTypeIconWidth,
                 icon_height = Some workspaceTypeIconWidth,
                 icon_additionalStyles = Some (Style workspaceTypeWrapper)\<rparr>,
        View_el (Style flex1) None
          [Text_el 1 (StyleArray [Style labelStrong]) ''workspace.type.free'',
           Text_el 1 (StyleArray [Style textMicro, Style textSupporting])
             ''workspace.common.plan'']]"
  using unknown_type_falls_back_asymmetrically
    [where wt = "''personal''" and c = CONST_literals and tr = "translate scenario_env"
       and p = "acme\<lparr>workspaceType := ''personal''\<rparr>" and env = scenario_env
       and isWide = True and isNarrow = False]
  by (simp add: CONST_literals_def scenario_env_def acme_def)

section \<open>Layout\<close>

text \<open>
  C1: when \<^verbatim>\<open>layoutWidth\<close> is NONE, given or by default, the component returns
  null, whatever the other props, the collaborators and the state are.
\<close>

theorem unresolved_layout_renders_nothing:
  assumes "layoutWidth p = None \<or> layoutWidth p = Some (LAYOUT_WIDTH_NONE c)"
  shows "rendered (WorkspacesListRow c env p pos) = None"
  using assms by (auto simp: WorkspacesListRow_def Let_def)

theorem unresolved_layout_renders_nothing_witness:
  "layoutWidth (acme\<lparr>layoutWidth := None\<rparr>) = None
   \<and> rendered (WorkspacesListRow CONST_literals scenario_env
                 (acme\<lparr>layoutWidth := None\<rparr>) origin) = None
   \<and> layoutWidth (acme\<lparr>layoutWidth := Some ''none''\<rparr>) = Some (LAYOUT_WIDTH_NONE CONST_literals)
   \<and> rendered (WorkspacesListRow CONST_literals scenario_env
                 (acme\<lparr>layoutWidth := Some ''none''\<rparr>) origin) = None"
  using unresolved_layout_renders_nothing
          [where p = "acme\<lparr>layoutWidth := None\<rparr>" and c = CONST_literals
             and env = scenario_env and pos = origin]
        unresolved_layout_renders_nothing
          [where p = "acme\<lparr>layoutWidth := Some ''none''\<rparr>" and c = CONST_literals
             and env = scenario_env and pos = origin]
  by (simp add: CONST_literals_def)

text \<open>
  C6: in the narrow layout the row has three sections, and the status indicator and the
  three-dots menu are children of the first, the identity section; in the wide layout the
  identity section holds neither, and a fourth section holds the indicator alone and a
  fifth the three-dots menu alone. For no input does a row hold controls both in its
  identity section and in sections after the third. WIDE, NARROW and NONE are different
  values. The indicator element renders nothing when \<^verbatim>\<open>brickRoadIndicator\<close> is
  falsy; the statement is about where the element stands.
\<close>

theorem controls_inline_when_narrow_trailing_when_wide:
  assumes "distinct [LAYOUT_WIDTH_WIDE c, LAYOUT_WIDTH_NARROW c, LAYOUT_WIDTH_NONE c]"
  shows "(layoutWidth p = Some (LAYOUT_WIDTH_NARROW c) \<longrightarrow>
            map_option children (rendered (WorkspacesListRow c env p pos))
              = Some [identitySection p False True,
                      ownerSection env (fst (ownerDetails env p)) False True,
                      typeSection c env p False True]
          \<and> map_option (map controls \<circ> children) (rendered (WorkspacesListRow c env p pos))
              = Some [[BrickRoadIndicatorIcon_el (brickRoadIndicator p),
                       ThreeDotsMenu_el (narrowThreeDotsMenu p)],
                      [], []])
       \<and> (layoutWidth p = Some (LAYOUT_WIDTH_WIDE c) \<longrightarrow>
            map_option children (rendered (WorkspacesListRow c env p pos))
              = Some [identitySection p True False,
                      ownerSection env (fst (ownerDetails env p)) True False,
                      typeSection c env p True False,
                      indicatorSection p False,
                      actionsSection p pos]
          \<and> map_option (map controls \<circ> children) (rendered (WorkspacesListRow c env p pos))
              = Some [[], [], [],
                      [BrickRoadIndicatorIcon_el (brickRoadIndicator p)],
                      [ThreeDotsMenu_el (wideThreeDotsMenu p pos)]]
          \<and> children (indicatorSection p False)
              = [BrickRoadIndicatorIcon_el (brickRoadIndicator p)]
          \<and> children (actionsSection p pos) = [ThreeDotsMenu_el (wideThreeDotsMenu p pos)])
       \<and> (\<forall>t. rendered (WorkspacesListRow c env p pos) = Some t \<longrightarrow>
            controls (children t ! 0) = [] \<or> concat (map controls (drop 3 (children t))) = [])"
proof (intro conjI impI allI)
  assume n: "layoutWidth p = Some (LAYOUT_WIDTH_NARROW c)"
  have r: "rendered (WorkspacesListRow c env p pos) =
     Some (View_el
             (StyleArray [Style flexColumn, StyleFalse, Style highlightBG, Style br3, Style pv5,
                          Style pl5, rowStyles p])
             None
             [identitySection p False True,
              ownerSection env (fst (ownerDetails env p)) False True,
              typeSection c env p False True])"
    using assms n by (intro rendered_narrow) auto
  show "map_option children (rendered (WorkspacesListRow c env p pos))
              = Some [identitySection p False True,
                      ownerSection env (fst (ownerDetails env p)) False True,
                      typeSection c env p False True]"
    by (simp add: r)
  show "map_option (map controls \<circ> children) (rendered (WorkspacesListRow c env p pos))
              = Some [[BrickRoadIndicatorIcon_el (brickRoadIndicator p),
                       ThreeDotsMenu_el (narrowThreeDotsMenu p)],
                      [], []]"
    by (simp add: r controls_sections)
next
  assume w: "layoutWidth p = Some (LAYOUT_WIDTH_WIDE c)"
  have r: "rendered (WorkspacesListRow c env p pos) =
     Some (View_el
             (StyleArray [Style flexRow, Style gap5, Style highlightBG, Style br3, Style pv5,
                          Style pl5, rowStyles p])
             None
             [identitySection p True False,
              ownerSection env (fst (ownerDetails env p)) True False,
              typeSection c env p True False,
              indicatorSection p False,
              actionsSection p pos])"
    using assms w rendered_wide [where c = c and p = p and env = env and pos = pos] by simp
  show "map_option children (rendered (WorkspacesListRow c env p pos))
              = Some [identitySection p True False,
                      ownerSection env (fst (ownerDetails env p)) True False,
                      typeSection c env p True False,
                      indicatorSection p False,
                      actionsSection p pos]"
    by (simp add: r)
  show "map_option (map controls \<circ> children) (rendered (WorkspacesListRow c env p pos))
              = Some [[], [], [],
                      [BrickRoadIndicatorIcon_el (brickRoadIndicator p)],
                      [ThreeDotsMenu_el (wideThreeDotsMenu p pos)]]"
    by (simp add: r controls_sections)
  show "children (indicatorSection p False) = [BrickRoadIndicatorIcon_el (brickRoadIndicator p)]"
    by (simp add: indicatorSection_def)
  show "children (actionsSection p pos) = [ThreeDotsMenu_el (wideThreeDotsMenu p pos)]"
    by (simp add: actionsSection_def)
next
  fix t
  assume t: "rendered (WorkspacesListRow c env p pos) = Some t"
  show "controls (children t ! 0) = [] \<or> concat (map controls (drop 3 (children t))) = []"
    using t assms
    by (cases "layoutWidth p")
       (auto simp: WorkspacesListRow_def Let_def controls_sections split: if_splits)
qed

theorem controls_inline_when_narrow_trailing_when_wide_witness:
  "distinct [LAYOUT_WIDTH_WIDE CONST_literals, LAYOUT_WIDTH_NARROW CONST_literals,
             LAYOUT_WIDTH_NONE CONST_literals]
   \<and> layoutWidth (acme\<lparr>layoutWidth := Some ''narrow''\<rparr>) = Some (LAYOUT_WIDTH_NARROW CONST_literals)
   \<and> map_option (map controls \<circ> children)
        (rendered (WorkspacesListRow CONST_literals scenario_env
                     (acme\<lparr>layoutWidth := Some ''narrow''\<rparr>) origin))
       = Some [[BrickRoadIndicatorIcon_el (Some ''error''),
                ThreeDotsMenu_el (narrowThreeDotsMenu acme)], [], []]
   \<and> layoutWidth acme = Some (LAYOUT_WIDTH_WIDE CONST_literals)
   \<and> map_option (map controls \<circ> children)
        (rendered (WorkspacesListRow CONST_literals scenario_env acme origin))
       = Some [[], [], [], [BrickRoadIndicatorIcon_el (Some ''error'')],
               [ThreeDotsMenu_el (wideThreeDotsMenu acme origin)]]"
  using controls_inline_when_narrow_trailing_when_wide
          [where c = CONST_literals and env = scenario_env and pos = origin
             and p = "acme\<lparr>layoutWidth := Some ''narrow''\<rparr>"]
        controls_inline_when_narrow_trailing_when_wide
          [where c = CONST_literals and env = scenario_env and pos = origin and p = acme]
  by (simp add: CONST_literals_def acme_def narrowThreeDotsMenu_def)

section \<open>The owner\<close>

text \<open>
  C5, as the spec states it, fails: with \<^verbatim>\<open>ownerAccountID\<close> left out, the row of
  the wide layout still has five sections, and the second is the view of the owner
  section with its layout styles and no children. The view of line 146 stands outside
  the condition of line 147.
\<close>

theorem absent_owner_section_is_still_rendered:
  "ownerAccountID (acme\<lparr>ownerAccountID := None\<rparr>) = None
   \<and> map_option (\<lambda>t. (length (children t), children t ! 1))
        (rendered (WorkspacesListRow CONST_literals scenario_env
                     (acme\<lparr>ownerAccountID := None\<rparr>) origin))
     = Some (5, ownerSection scenario_env owner_undefined True False)
   \<and> ownerSection scenario_env owner_undefined True False
     = View_el (StyleArray [Style flexRow, Style flex1, Style gap2, StyleFalse,
                            Style alignItemsCenter]) None []"
  by (simp add: WorkspacesListRow_def Let_def ownerDetails_def ownerSection_def and_style_def
      CONST_literals_def acme_def)

text \<open>
  C5, amended: with \<^verbatim>\<open>ownerAccountID\<close> left out, the directory lookup is not
  called, and whenever the row renders, its second section is the view of the owner
  section with no children: no avatar, no name, no login and no placeholder.
\<close>

theorem absent_owner_gives_empty_owner_section:
  assumes "ownerAccountID p = None"
  shows "directoryCalls (WorkspacesListRow c env p pos) = []
       \<and> ownerDetails env p = (owner_undefined, [])
       \<and> (\<forall>t. rendered (WorkspacesListRow c env p pos) = Some t \<longrightarrow>
             children t ! 1 =
               View_el (StyleArray [Style flexRow,
                                    and_style (layoutWidth p = Some (LAYOUT_WIDTH_WIDE c)) (Style flex1),
                                    Style gap2,
                                    and_style (layoutWidth p = Some (LAYOUT_WIDTH_NARROW c)) (Style mr5),
                                    Style alignItemsCenter]) None [])"
proof -
  have od: "ownerDetails env p = (owner_undefined, [])"
    using assms by (simp add: ownerDetails_def)
  have calls: "directoryCalls (WorkspacesListRow c env p pos) = []"
    by (simp add: WorkspacesListRow_def Let_def od)
  have sect: "children t ! 1 =
               View_el (StyleArray [Style flexRow,
                                    and_style (layoutWidth p = Some (LAYOUT_WIDTH_WIDE c)) (Style flex1),
                                    Style gap2,
                                    and_style (layoutWidth p = Some (LAYOUT_WIDTH_NARROW c)) (Style mr5),
                                    Style alignItemsCenter]) None []"
    if "rendered (WorkspacesListRow c env p pos) = Some t" for t
    using that
    by (cases "layoutWidth p")
       (auto simp: WorkspacesListRow_def Let_def od ownerSection_def split: if_splits)
  show ?thesis using od calls sect by blast
qed

theorem absent_owner_gives_empty_owner_section_witness:
  "ownerAccountID (acme\<lparr>ownerAccountID := None, layoutWidth := Some ''narrow''\<rparr>) = None
   \<and> directoryCalls (WorkspacesListRow CONST_literals scenario_env
        (acme\<lparr>ownerAccountID := None, layoutWidth := Some ''narrow''\<rparr>) origin) = []
   \<and> map_option (\<lambda>t. children t ! 1)
        (rendered (WorkspacesListRow CONST_literals scenario_env
           (acme\<lparr>ownerAccountID := None, layoutWidth := Some ''narrow''\<rparr>) origin))
      = Some (View_el (StyleArray [Style flexRow, StyleFalse, Style gap2, Style mr5,
                                   Style alignItemsCenter]) None [])"
proof -
  let ?p = "acme\<lparr>ownerAccountID := None, layoutWidth := Some ''narrow''\<rparr>"
  have a: "ownerAccountID ?p = None" by (simp add: acme_def)
  obtain t where t: "rendered (WorkspacesListRow CONST_literals scenario_env ?p origin) = Some t"
    by (simp add: WorkspacesListRow_def Let_def CONST_literals_def acme_def)
  show ?thesis
    using absent_owner_gives_empty_owner_section
            [where p = ?p and c = CONST_literals and env = scenario_env and pos = origin, OF a] t
    by (simp add: and_style_def CONST_literals_def acme_def)
qed

text \<open>
  C9: the identifier 0 is falsy, so the row it gives is the row of a left-out identifier,
  tree and directory calls alike: the lookup is not called, the value of line 95 is the
  number 0 itself, and the owner section has no children.
\<close>

theorem zero_owner_id_is_treated_as_absent:
  "WorkspacesListRow c env (p\<lparr>ownerAccountID := Some 0\<rparr>) pos
     = WorkspacesListRow c env (p\<lparr>ownerAccountID := None\<rparr>) pos
   \<and> directoryCalls (WorkspacesListRow c env (p\<lparr>ownerAccountID := Some 0\<rparr>) pos) = []
   \<and> ownerDetails env (p\<lparr>ownerAccountID := Some 0\<rparr>) = (owner_zero, [])
   \<and> \<not> truthy_owner owner_zero
   \<and> children (ownerSection env (fst (ownerDetails env (p\<lparr>ownerAccountID := Some 0\<rparr>)))
                 isWide isNarrow) = []"
  by (simp add: WorkspacesListRow_def Let_def ownerDetails_def ownerSection_def
      identitySection_def typeSection_def indicatorSection_def actionsSection_def
      narrowThreeDotsMenu_def wideThreeDotsMenu_def)

theorem zero_owner_id_is_treated_as_absent_witness:
  "directoryCalls (WorkspacesListRow CONST_literals scenario_env acme origin) = [([42], 7)]
   \<and> directoryCalls (WorkspacesListRow CONST_literals scenario_env
                        (acme\<lparr>ownerAccountID := Some 0\<rparr>) origin) = []
   \<and> WorkspacesListRow CONST_literals scenario_env (acme\<lparr>ownerAccountID := Some 0\<rparr>) origin
     = WorkspacesListRow CONST_literals scenario_env (acme\<lparr>ownerAccountID := None\<rparr>) origin"
  using zero_owner_id_is_treated_as_absent
          [where c = CONST_literals and env = scenario_env and p = acme and pos = origin]
  by (simp add: WorkspacesListRow_def Let_def ownerDetails_def acme_def viewer_details_def
      scenario_env_def jane_doe_def CONST_literals_def)

section \<open>The anchor of the three-dots menu\<close>

text \<open>
  Coordinates are JavaScript numbers, and \<open>+\<close> on them is the addition of doubles
  \<open>js_add\<close>, which rounds.

  C3: the callback given to the measurement replaces the anchor by the bottom-right corner
  of the reported rectangle, horizontal x + width and vertical y + height; the rectangle
  10, 20, 30, 40 gives the anchor 40, 60, and the sums are the rounded ones: 0.1 and 0.2
  give 0.30000000000000004, and 1 added to 2 to the power 53 is lost. This holds of the
  callback itself, of the delivery of a rectangle to a row with a measurement under way,
  and of a press followed by the delivery in the wide layout.
\<close>

theorem measurement_moves_anchor_to_bottom_right:
  "threeDotsMenuPosition (measureInWindow_callback x y width height s)
     = \<lparr>horizontal = x + width, vertical = y + height\<rparr>
   \<and> threeDotsMenuPosition
         (measureInWindow_callback (js_int 10) (js_int 20) (js_int 30) (js_int 40) s)
     = \<lparr>horizontal = js_int 40, vertical = js_int 60\<rparr>
   \<and> threeDotsMenuPosition
         (measureInWindow_callback (Finite False 7205759403792794 (- 56)) (js_int 9007199254740992)
            (Finite False 7205759403792794 (- 55)) (js_int 1) s)
     = \<lparr>horizontal = Finite False 5404319552844596 (- 54),
        vertical = js_int 9007199254740992\<rparr>
   \<and> (0 < measureRequests s \<longrightarrow>
        threeDotsMenuPosition (step c env s (MeasureDone x y width height))
          = \<lparr>horizontal = x + width, vertical = y + height\<rparr>)
   \<and> (distinct [LAYOUT_WIDTH_WIDE c, LAYOUT_WIDTH_NARROW c, LAYOUT_WIDTH_NONE c]
        \<and> layoutWidth (current_props s) = Some (LAYOUT_WIDTH_WIDE c) \<longrightarrow>
        threeDotsMenuPosition (run c env s [IconPress, MeasureDone x y width height])
          = \<lparr>horizontal = x + width, vertical = y + height\<rparr>)"
proof (intro conjI impI)
  show "threeDotsMenuPosition (measureInWindow_callback x y width height s)
          = \<lparr>horizontal = x + width, vertical = y + height\<rparr>"
    by (simp add: measureInWindow_callback_def setThreeDotsMenuPosition_def)
  show "threeDotsMenuPosition
          (measureInWindow_callback (js_int 10) (js_int 20) (js_int 30) (js_int 40) s)
          = \<lparr>horizontal = js_int 40, vertical = js_int 60\<rparr>"
    by (simp add: measureInWindow_callback_def setThreeDotsMenuPosition_def js_sums)
  show "threeDotsMenuPosition
         (measureInWindow_callback (Finite False 7205759403792794 (- 56)) (js_int 9007199254740992)
            (Finite False 7205759403792794 (- 55)) (js_int 1) s)
     = \<lparr>horizontal = Finite False 5404319552844596 (- 54),
        vertical = js_int 9007199254740992\<rparr>"
    by (simp add: measureInWindow_callback_def setThreeDotsMenuPosition_def js_add_rounds)
  show "threeDotsMenuPosition (step c env s (MeasureDone x y width height))
          = \<lparr>horizontal = x + width, vertical = y + height\<rparr>"
    if "0 < measureRequests s"
    using that by (rule measure_done_anchor)
  show "threeDotsMenuPosition (run c env s [IconPress, MeasureDone x y width height])
          = \<lparr>horizontal = x + width, vertical = y + height\<rparr>"
    if "distinct [LAYOUT_WIDTH_WIDE c, LAYOUT_WIDTH_NARROW c, LAYOUT_WIDTH_NONE c]
        \<and> layoutWidth (current_props s) = Some (LAYOUT_WIDTH_WIDE c)"
    using that by (simp add: trigger_and_measure_wide)
qed

theorem measurement_moves_anchor_to_bottom_right_witness:
  "0 < measureRequests ((mount acme)\<lparr>measureRequests := 1\<rparr>)
   \<and> threeDotsMenuPosition (step CONST_literals scenario_env
         ((mount acme)\<lparr>measureRequests := 1\<rparr>) (MeasureDone (js_int 10) (js_int 20) (js_int 30) (js_int 40)))
       = \<lparr>horizontal = js_int 40, vertical = js_int 60\<rparr>
   \<and> distinct [LAYOUT_WIDTH_WIDE CONST_literals, LAYOUT_WIDTH_NARROW CONST_literals,
               LAYOUT_WIDTH_NONE CONST_literals]
   \<and> layoutWidth (current_props (mount acme)) = Some (LAYOUT_WIDTH_WIDE CONST_literals)
   \<and> threeDotsMenuPosition (run CONST_literals scenario_env (mount acme)
         [IconPress, MeasureDone (js_int 10) (js_int 20) (js_int 30) (js_int 40)])
       = \<lparr>horizontal = js_int 40, vertical = js_int 60\<rparr>"
  using measurement_moves_anchor_to_bottom_right
          [where s = "(mount acme)\<lparr>measureRequests := 1\<rparr>" and c = CONST_literals
             and env = scenario_env and x = "js_int 10" and y = "js_int 20"
             and width = "js_int 30" and height = "js_int 40"]
        measurement_moves_anchor_to_bottom_right
          [where s = "mount acme" and c = CONST_literals
             and env = scenario_env and x = "js_int 10" and y = "js_int 20"
             and width = "js_int 30" and height = "js_int 40"]
  by (simp add: CONST_literals_def mount_def acme_def js_sums)

text \<open>
  C7: the anchor of a freshly mounted row is the origin; no sequence of events without a
  delivered measurement changes it, whatever presses and parent renders it holds, and a
  rectangle that arrives while no measurement is under way changes nothing.
\<close>

theorem anchor_starts_at_origin_and_moves_only_by_measurement:
  "threeDotsMenuPosition (mount p) = \<lparr>horizontal = 0, vertical = 0\<rparr>
   \<and> ((\<forall>e\<in>set es. \<not> is_measurement e) \<longrightarrow>
        threeDotsMenuPosition (run c env s es) = threeDotsMenuPosition s)
   \<and> (measureRequests s = 0 \<longrightarrow> step c env s (MeasureDone x y width height) = s)"
  by (simp add: mount_def run_keeps_anchor)

theorem anchor_starts_at_origin_and_moves_only_by_measurement_witness:
  "threeDotsMenuPosition
     (run CONST_literals scenario_env (mount acme)
        [IconPress, ParentRender (acme\<lparr>layoutWidth := Some ''narrow''\<rparr>), IconPress,
         ParentRender (acme\<lparr>title := ''Acme Ltd''\<rparr>), IconPress])
     = \<lparr>horizontal = 0, vertical = 0\<rparr>
   \<and> measureRequests (mount acme) = 0
   \<and> step CONST_literals scenario_env (mount acme) (MeasureDone (js_int 10) (js_int 20) (js_int 30) (js_int 40)) = mount acme"
  using anchor_starts_at_origin_and_moves_only_by_measurement
          [where p = acme and s = "mount acme" and c = CONST_literals and env = scenario_env
             and es = "[IconPress, ParentRender (acme\<lparr>layoutWidth := Some ''narrow''\<rparr>),
                        IconPress, ParentRender (acme\<lparr>title := ''Acme Ltd''\<rparr>), IconPress]"
             and x = "js_int 10" and y = "js_int 20"
             and width = "js_int 30" and height = "js_int 40"]
  by (simp add: mount_def)

text \<open>
  C8: pressing the trigger and receiving the same rectangle a second time leaves the
  anchor where the first round put it. In the wide layout both rounds end in the same
  state of the row, with the anchor at the bottom-right corner of the rectangle.
\<close>

theorem measuring_twice_gives_the_same_anchor:
  "threeDotsMenuPosition
     (run c env s [IconPress, MeasureDone x y width height, IconPress, MeasureDone x y width height])
     = threeDotsMenuPosition (run c env s [IconPress, MeasureDone x y width height])
   \<and> (distinct [LAYOUT_WIDTH_WIDE c, LAYOUT_WIDTH_NARROW c, LAYOUT_WIDTH_NONE c]
        \<and> layoutWidth (current_props s) = Some (LAYOUT_WIDTH_WIDE c) \<longrightarrow>
        run c env (run c env s [IconPress, MeasureDone x y width height])
          [IconPress, MeasureDone x y width height]
          = run c env s [IconPress, MeasureDone x y width height]
        \<and> threeDotsMenuPosition (run c env s [IconPress, MeasureDone x y width height])
          = \<lparr>horizontal = x + width, vertical = y + height\<rparr>)"
proof (intro conjI impI)
  show "threeDotsMenuPosition
     (run c env s [IconPress, MeasureDone x y width height, IconPress, MeasureDone x y width height])
     = threeDotsMenuPosition (run c env s [IconPress, MeasureDone x y width height])"
    by (rule trigger_twice_same_anchor)
next
  assume a: "distinct [LAYOUT_WIDTH_WIDE c, LAYOUT_WIDTH_NARROW c, LAYOUT_WIDTH_NONE c]
        \<and> layoutWidth (current_props s) = Some (LAYOUT_WIDTH_WIDE c)"
  let ?s' = "s\<lparr>threeDotsMenuPosition := \<lparr>horizontal = x + width, vertical = y + height\<rparr>\<rparr>"
  have 1: "run c env s [IconPress, MeasureDone x y width height] = ?s'"
    using a by (intro trigger_and_measure_wide) simp_all
  have 2: "run c env ?s' [IconPress, MeasureDone x y width height] = ?s'"
    using a trigger_and_measure_wide [where s = ?s' and c = c and env = env] by simp
  show "run c env (run c env s [IconPress, MeasureDone x y width height])
          [IconPress, MeasureDone x y width height]
          = run c env s [IconPress, MeasureDone x y width height]"
    by (simp only: 1 2)
  show "threeDotsMenuPosition (run c env s [IconPress, MeasureDone x y width height])
          = \<lparr>horizontal = x + width, vertical = y + height\<rparr>"
    by (simp add: 1)
qed

theorem measuring_twice_gives_the_same_anchor_witness:
  "distinct [LAYOUT_WIDTH_WIDE CONST_literals, LAYOUT_WIDTH_NARROW CONST_literals,
             LAYOUT_WIDTH_NONE CONST_literals]
   \<and> layoutWidth (current_props (mount acme)) = Some (LAYOUT_WIDTH_WIDE CONST_literals)
   \<and> threeDotsMenuPosition (run CONST_literals scenario_env (mount acme)
        [IconPress, MeasureDone (js_int 10) (js_int 20) (js_int 30) (js_int 40)]) = \<lparr>horizontal = js_int 40, vertical = js_int 60\<rparr>
   \<and> threeDotsMenuPosition (run CONST_literals scenario_env (mount acme)
        [IconPress, MeasureDone (js_int 10) (js_int 20) (js_int 30) (js_int 40), IconPress, MeasureDone (js_int 10) (js_int 20) (js_int 30) (js_int 40)])
       = \<lparr>horizontal = js_int 40, vertical = js_int 60\<rparr>"
  using measuring_twice_gives_the_same_anchor
          [where s = "mount acme" and c = CONST_literals
             and env = scenario_env and x = "js_int 10" and y = "js_int 20"
             and width = "js_int 30" and height = "js_int 40"]
  by (simp add: CONST_literals_def mount_def acme_def js_sums)




end
